theory Spec2Isabelle
  imports Main "HOL-Library.Sublist"
begin

section \<open>Python values, exceptions and the pickled file\<close>

text \<open>
  The repository holds the same bot twice: as the package \<^verbatim>\<open>telegram_utils\<close>
  (\<^verbatim>\<open>config.py\<close>, \<^verbatim>\<open>errors.py\<close>, \<^verbatim>\<open>main.py\<close>) and as the single module
  \<^verbatim>\<open>telegram_bot.py\<close>. \<^verbatim>\<open>Config\<close>, \<^verbatim>\<open>set_bot_token\<close> and \<^verbatim>\<open>send_message\<close> are the same
  text in both; \<^verbatim>\<open>add_client\<close>, \<^verbatim>\<open>get_message\<close> and its \<^verbatim>\<open>handle_msg\<close> differ. Where they
  differ the definition taken from \<^verbatim>\<open>telegram_bot.py\<close> carries the prefix \<open>tb_\<close>.
\<close>

text \<open>The exceptions the program defines, catches, or lets through.\<close>

datatype exn =
    ConfigError
  | NoTokenError
  | NoClientIdsError
  | FileNotFoundError
  | FileExistsError
  | NotADirectoryError
  | IsADirectoryError
  | UnpicklingError
  | EOFError
  | AttributeError
  | TelegramError

text \<open>
  The Python objects that reach the program untyped: what \<^verbatim>\<open>pickle.load\<close> hands back, and
  what a predicate given to \<^verbatim>\<open>get_message\<close> returns. A dict is the list of its items in
  insertion order.
\<close>

datatype pyval =
    PyNone
  | PyBool bool
  | PyInt int
  | PyStr string
  | PyList "pyval list"
  | PyDict "(pyval \<times> pyval) list"

text \<open>
  The bytes of a file are modelled by what \<^verbatim>\<open>pickle.load\<close> does with them: \<open>Pickle v\<close> is
  what \<^verbatim>\<open>pickle.dump\<close> writes for \<open>v\<close> and loads back as \<open>v\<close>; on \<open>Corrupt\<close> bytes
  \<^verbatim>\<open>pickle.load\<close> raises \<^verbatim>\<open>UnpicklingError\<close>; on \<open>Truncated\<close> bytes (an empty file among
  them) it raises \<^verbatim>\<open>EOFError\<close>, one of the other exceptions the \<^verbatim>\<open>pickle\<close> documentation
  lists for unpickling.
\<close>

datatype blob = Pickle pyval | Corrupt | Truncated

definition pickle_dump :: "pyval \<Rightarrow> blob" where
  "pickle_dump v = Pickle v"

fun pickle_load :: "blob \<Rightarrow> exn + pyval" where
  "pickle_load (Pickle v) = Inr v"
| "pickle_load Corrupt = Inl UnpicklingError"
| "pickle_load Truncated = Inl EOFError"

text \<open>\<^verbatim>\<open>obj.get(key)\<close> with a string key: only a dict has the method.\<close>

fun py_get :: "pyval \<Rightarrow> string \<Rightarrow> exn + pyval" where
  "py_get (PyDict d) k = Inr (case map_of d (PyStr k) of None \<Rightarrow> PyNone | Some v \<Rightarrow> v)"
| "py_get _ k = Inl AttributeError"

section \<open>The file system as the program sees it\<close>

text \<open>
  A path is the list of its components, \<^verbatim>\<open>Path.parent\<close> drops the last one. The file system
  is the regular files with their contents and the directories that exist. Permissions and
  device errors are not modelled.
\<close>

type_synonym path = "string list"

definition parent :: "path \<Rightarrow> path" where
  "parent p = butlast p"

record fs =
  files :: "path \<rightharpoonup> blob"
  dirs :: "path set"

text \<open>
  Walking down the components above a path, as the system does to resolve it: the first
  one that is not a directory stops the walk, with \<^verbatim>\<open>NotADirectoryError\<close> when it is a
  regular file and \<^verbatim>\<open>FileNotFoundError\<close> when nothing is there.
\<close>

fun resolve :: "fs \<Rightarrow> path list \<Rightarrow> exn option" where
  "resolve s [] = None"
| "resolve s (q # qs) =
     (if q \<in> dirs s then resolve s qs
      else if files s q \<noteq> None then Some NotADirectoryError
      else Some FileNotFoundError)"

definition above :: "path \<Rightarrow> path list" where
  "above p = butlast (prefixes p)"

text \<open>
  \<^verbatim>\<open>open(path, "rb")\<close>: the contents of the regular file at the path. Where there is none, the
  error says why: a regular file among the components above (\<^verbatim>\<open>NotADirectoryError\<close>), a
  directory at the path (\<^verbatim>\<open>IsADirectoryError\<close>), or nothing there
  (\<^verbatim>\<open>FileNotFoundError\<close>).
\<close>

definition open_rb :: "fs \<Rightarrow> path \<Rightarrow> exn + blob" where
  "open_rb s p =
     (case files s p of
        Some b \<Rightarrow> Inr b
      | None \<Rightarrow>
          (case resolve s (above p) of
             Some e \<Rightarrow> Inl e
           | None \<Rightarrow> if p \<in> dirs s then Inl IsADirectoryError else Inl FileNotFoundError))"

text \<open>
  \<^verbatim>\<open>open(path, "wb")\<close>, as far as the program handles it: it raises \<^verbatim>\<open>FileNotFoundError\<close>
  when the directory of the file is missing, and writes the file otherwise.
\<close>

definition open_wb :: "fs \<Rightarrow> path \<Rightarrow> blob \<Rightarrow> exn + fs" where
  "open_wb s p b =
     (if parent p \<in> dirs s then Inr (s\<lparr>files := (files s)(p \<mapsto> b)\<rparr>)
      else Inl FileNotFoundError)"

text \<open>\<^verbatim>\<open>os.makedirs\<close> creates the directory and every missing ancestor.\<close>

definition makedirs :: "fs \<Rightarrow> path \<Rightarrow> exn + fs" where
  "makedirs s d =
     (if d \<in> dirs s then Inl FileExistsError
      else Inr (s\<lparr>dirs := dirs s \<union> set (prefixes d)\<rparr>))"

section \<open>Config\<close>

text \<open>
  The credential is a string or absent, the registry a dict from chat id to display name,
  kept as the list of its items in insertion order.
\<close>

record config =
  filepath :: path
  token :: "string option"
  client_ids :: "(int \<times> string) list"

definition py_token :: "string option \<Rightarrow> pyval" where
  "py_token t = (case t of None \<Rightarrow> PyNone | Some s \<Rightarrow> PyStr s)"

definition py_clients :: "(int \<times> string) list \<Rightarrow> pyval" where
  "py_clients c = PyDict (map (\<lambda>(k, v). (PyInt k, PyStr v)) c)"

text \<open>The body of the \<^verbatim>\<open>try\<close> in \<^verbatim>\<open>Config.__init__\<close>: open, unpickle, two \<^verbatim>\<open>get\<close>s.\<close>

definition read_config :: "fs \<Rightarrow> path \<Rightarrow> exn + pyval \<times> pyval" where
  "read_config s p =
     (case open_rb s p of
        Inl e \<Rightarrow> Inl e
      | Inr b \<Rightarrow>
          (case pickle_load b of
             Inl e \<Rightarrow> Inl e
           | Inr obj \<Rightarrow>
               (case py_get obj ''token'' of
                  Inl e \<Rightarrow> Inl e
                | Inr t \<Rightarrow>
                    (case py_get obj ''client_ids'' of
                       Inl e \<Rightarrow> Inl e
                     | Inr c \<Rightarrow> Inr (t, c)))))"

text \<open>
  \<^verbatim>\<open>Config.__init__\<close>: the values of \<^verbatim>\<open>self.token\<close> and \<^verbatim>\<open>self.client_ids\<close> it leaves, as the
  Python values they are. The two \<^verbatim>\<open>except\<close> clauses follow in the source's order; any other
  exception passes through.
\<close>

definition Config_init :: "fs \<Rightarrow> path \<Rightarrow> exn + pyval \<times> pyval" where
  "Config_init s p =
     (case read_config s p of
        Inr r \<Rightarrow> Inr r
      | Inl e \<Rightarrow>
          if e = FileNotFoundError then Inr (PyNone, PyDict [])
          else if e = UnpicklingError then Inl ConfigError
          else Inl e)"

text \<open>
  \<^verbatim>\<open>Config.write_config\<close>: dump the dict of the two fields; on \<^verbatim>\<open>FileNotFoundError\<close> make
  the parent directory and write again.
\<close>

definition config_dict :: "config \<Rightarrow> pyval" where
  "config_dict c =
     PyDict [(PyStr ''token'', py_token (token c)),
             (PyStr ''client_ids'', py_clients (client_ids c))]"

definition write_config :: "config \<Rightarrow> fs \<Rightarrow> exn + fs" where
  "write_config c s =
     (case open_wb s (filepath c) (pickle_dump (config_dict c)) of
        Inr s' \<Rightarrow> Inr s'
      | Inl e \<Rightarrow>
          if e = FileNotFoundError then
            (case makedirs s (parent (filepath c)) of
               Inl e' \<Rightarrow> Inl e'
             | Inr s1 \<Rightarrow> open_wb s1 (filepath c) (pickle_dump (config_dict c)))
          else Inl e)"

section \<open>Python helpers\<close>

text \<open>\<^verbatim>\<open>not self.config.token\<close> is true for \<^verbatim>\<open>None\<close> and for the empty string.\<close>

definition truthy_token :: "string option \<Rightarrow> bool" where
  "truthy_token t = (case t of None \<Rightarrow> False | Some s \<Rightarrow> s \<noteq> [])"

text \<open>
  \<^verbatim>\<open>d[k] = v\<close> on a dict: an existing key keeps its place and takes the new value, a new
  key goes to the end. \<^verbatim>\<open>d.update(other)\<close> does so for each item of \<open>other\<close> in turn.
\<close>

fun dict_setitem :: "('k \<times> 'v) list \<Rightarrow> 'k \<Rightarrow> 'v \<Rightarrow> ('k \<times> 'v) list" where
  "dict_setitem [] k v = [(k, v)]"
| "dict_setitem ((k', v') # d) k v =
     (if k' = k then (k, v) # d else (k', v') # dict_setitem d k v)"

fun dict_update :: "('k \<times> 'v) list \<Rightarrow> ('k \<times> 'v) list \<Rightarrow> ('k \<times> 'v) list" where
  "dict_update d [] = d"
| "dict_update d ((k, v) # other) = dict_update (dict_setitem d k v) other"

definition dict_keys :: "('k \<times> 'v) list \<Rightarrow> 'k list" where
  "dict_keys d = map fst d"

text \<open>\<^verbatim>\<open>str\<close> of an integer: its decimal digits, with a minus sign below zero.\<close>

definition digit_char :: "nat \<Rightarrow> char" where
  "digit_char d = ''0123456789'' ! d"

fun str_nat :: "nat \<Rightarrow> string" where
  "str_nat n = (if n < 10 then [digit_char n] else str_nat (n div 10) @ [digit_char (n mod 10)])"

definition str_int :: "int \<Rightarrow> string" where
  "str_int i = (if i < 0 then CHR ''-'' # str_nat (nat (- i)) else str_nat (nat i))"

section \<open>The bot\<close>

text \<open>
  What a \<^verbatim>\<open>TelegramBot\<close> works on: its \<^verbatim>\<open>Config\<close>, the file system behind it, and the
  lines its logger has written for the operator.
\<close>

record bot =
  config :: config
  disk :: fs
  console :: "string list"

text \<open>
  \<^verbatim>\<open>set_bot_token\<close>: \<^verbatim>\<open>token or input(...)\<close>, then \<^verbatim>\<open>write_config\<close>. \<open>typed\<close> is the line the
  operator enters when asked. A method returns the exception it raised or \<^verbatim>\<open>None\<close>, and the
  bot as it left it.
\<close>

definition set_bot_token :: "string option \<Rightarrow> string \<Rightarrow> bot \<Rightarrow> (exn + unit) \<times> bot" where
  "set_bot_token tok typed b =
     (let b1 = b\<lparr>config := (config b)\<lparr>token := Some (if truthy_token tok then the tok else typed)\<rparr>\<rparr>
      in case write_config (config b1) (disk b1) of
           Inl e \<Rightarrow> (Inl e, b1)
         | Inr s \<Rightarrow> (Inr (), b1\<lparr>disk := s\<rparr>))"

text \<open>\<^verbatim>\<open>add_client\<close> of \<^verbatim>\<open>telegram_utils/main.py\<close>: update the registry, then \<^verbatim>\<open>write_config\<close>.\<close>

definition add_client :: "(int \<times> string) list \<Rightarrow> bot \<Rightarrow> (exn + unit) \<times> bot" where
  "add_client client b =
     (let b1 = b\<lparr>config := (config b)\<lparr>client_ids := dict_update (client_ids (config b)) client\<rparr>\<rparr>
      in case write_config (config b1) (disk b1) of
           Inl e \<Rightarrow> (Inl e, b1)
         | Inr s \<Rightarrow> (Inr (), b1\<lparr>disk := s\<rparr>))"

subsection \<open>send\_message\<close>

text \<open>
  The transport is the external library: \<open>tx chat_id text parse_mode\<close> is the exception
  \<^verbatim>\<open>bot.send_message\<close> raises for that request, or \<open>None\<close> when it goes through. The calls
  made are collected in order, the failed one included.
\<close>

type_synonym outbound = "int \<times> string \<times> string option"

type_synonym transport = "int \<Rightarrow> string \<Rightarrow> string option \<Rightarrow> exn option"

fun send_each ::
  "transport \<Rightarrow> string \<Rightarrow> string option \<Rightarrow> int list \<Rightarrow> outbound list \<Rightarrow> (exn + unit) \<times> outbound list"
where
  "send_each tx message parse_mode [] calls = (Inr (), calls)"
| "send_each tx message parse_mode (chat # rest) calls =
     (case tx chat message parse_mode of
        Some e \<Rightarrow> (Inl e, calls @ [(chat, message, parse_mode)])
      | None \<Rightarrow> send_each tx message parse_mode rest (calls @ [(chat, message, parse_mode)]))"

text \<open>
  The \<^verbatim>\<open>client_ids\<close> argument is an \<^verbatim>\<open>Iterable[int]\<close> or \<^verbatim>\<open>None\<close>, and the code tests it with
  \<^verbatim>\<open>not\<close>: \<^verbatim>\<open>None\<close> is false, a collection (list, tuple, set, dict) is false when it is
  empty, an iterator or generator is true whatever it yields.
\<close>

datatype ids_arg = NoIds | IdList "int list" | IdIter "int list"

fun truthy_ids :: "ids_arg \<Rightarrow> bool" where
  "truthy_ids NoIds = False"
| "truthy_ids (IdList ids) = (ids \<noteq> [])"
| "truthy_ids (IdIter ids) = True"

fun ids_of :: "ids_arg \<Rightarrow> int list" where
  "ids_of NoIds = []"
| "ids_of (IdList ids) = ids"
| "ids_of (IdIter ids) = ids"

text \<open>
  \<^verbatim>\<open>if not client_ids: client_ids = self.config.client_ids\<close>: what the variable holds after
  this line. The registry is a dict, so a collection of its keys.
\<close>

definition rebound :: "ids_arg \<Rightarrow> bot \<Rightarrow> ids_arg" where
  "rebound arg b =
     (if \<not> truthy_ids arg then IdList (dict_keys (client_ids (config b))) else arg)"

text \<open>The chat ids the loop goes through.\<close>

definition recipients :: "ids_arg \<Rightarrow> bot \<Rightarrow> int list" where
  "recipients arg b = ids_of (rebound arg b)"

definition send_message ::
  "transport \<Rightarrow> string \<Rightarrow> string option \<Rightarrow> ids_arg \<Rightarrow> bot \<Rightarrow> (exn + unit) \<times> outbound list"
where
  "send_message tx message parse_mode arg b =
     (let ids = rebound arg b in
      if \<not> truthy_token (token (config b)) then (Inl NoTokenError, [])
      else if \<not> truthy_ids ids then (Inl NoClientIdsError, [])
      else send_each tx message parse_mode (ids_of ids) [])"

subsection \<open>get\_message\<close>

record message =
  chat_id :: int
  full_name :: string
  msg_text :: string

text \<open>
  A listen session: \<^verbatim>\<open>dispatcher.chat_data\<close> (per chat, the text last stored under
  \<^verbatim>\<open>msg\<close>), the replies sent with \<^verbatim>\<open>reply_text\<close>, and whether \<^verbatim>\<open>SIGTERM\<close> has been raised.
\<close>

record session =
  chat_data :: "(int \<times> string) list"
  replies :: "(int \<times> string) list"
  stopped :: bool

text \<open>
  The decorated function: it gets the message, may change the bot, and returns a Python
  value or raises.
\<close>

type_synonym predicate = "message \<Rightarrow> bot \<Rightarrow> (exn + pyval) \<times> bot"

text \<open>
  \<^verbatim>\<open>handle_msg\<close> of \<^verbatim>\<open>telegram_utils/main.py\<close>. \<^verbatim>\<open>res is False\<close> holds for the one object
  \<^verbatim>\<open>False\<close>, here \<open>PyBool False\<close>, and for nothing else.
\<close>

definition handle_msg :: "predicate \<Rightarrow> message \<Rightarrow> bot \<times> session \<Rightarrow> (exn + bool) \<times> bot \<times> session" where
  "handle_msg f upd st =
     (let b = fst st;
          s1 = (snd st)\<lparr>chat_data := dict_setitem (chat_data (snd st)) (chat_id upd) (msg_text upd)\<rparr>
      in case f upd b of
           (Inl e, b') \<Rightarrow> (Inl e, b', s1)
         | (Inr res, b') \<Rightarrow>
             if res = PyBool False then
               (Inr False, b', s1\<lparr>replies := replies s1 @ [(chat_id upd, ''Invalid!'')]\<rparr>)
             else
               (Inr True, b',
                s1\<lparr>replies := replies s1 @ [(chat_id upd, ''Accepted.'')], stopped := True\<rparr>))"

text \<open>
  \<^verbatim>\<open>handle_msg\<close> of \<^verbatim>\<open>telegram_bot.py\<close>: a message from a chat outside the registry is
  dropped first.
\<close>

definition tb_handle_msg :: "predicate \<Rightarrow> message \<Rightarrow> bot \<times> session \<Rightarrow> (exn + bool) \<times> bot \<times> session" where
  "tb_handle_msg f upd st =
     (if chat_id upd \<notin> set (dict_keys (client_ids (config (fst st)))) then (Inr False, st)
      else handle_msg f upd st)"

text \<open>
  Polling until the signal: the handler runs on each inbound text message in turn, and
  \<^verbatim>\<open>updater.idle\<close> returns once \<^verbatim>\<open>SIGTERM\<close> has been raised. An exception of the handler
  stays with the dispatcher. When the inbound messages run out first, the call never
  returns: \<open>None\<close>.
\<close>

fun listen ::
  "(message \<Rightarrow> bot \<times> session \<Rightarrow> (exn + bool) \<times> bot \<times> session) \<Rightarrow> message list \<Rightarrow>
   bot \<times> session \<Rightarrow> (bot \<times> session) option"
where
  "listen h [] st = None"
| "listen h (upd # inbound) st =
     (let st' = snd (h upd st) in
      if stopped (snd st') then Some st' else listen h inbound st')"

definition new_session :: session where
  "new_session = \<lparr>chat_data = [], replies = [], stopped = False\<rparr>"

text \<open>
  \<^verbatim>\<open>wrapper\<close>: a fresh updater and the session. What it returns, \<^verbatim>\<open>dispatcher.chat_data\<close>, is
  the \<open>chat_data\<close> of the session that comes back, next to the bot as the session left it.
\<close>

definition wrapper :: "predicate \<Rightarrow> message list \<Rightarrow> bot \<Rightarrow> (bot \<times> session) option" where
  "wrapper f inbound b = listen (handle_msg f) inbound (b, new_session)"

definition tb_wrapper :: "predicate \<Rightarrow> message list \<Rightarrow> bot \<Rightarrow> (bot \<times> session) option" where
  "tb_wrapper f inbound b = listen (tb_handle_msg f) inbound (b, new_session)"

text \<open>
  \<^verbatim>\<open>get_message\<close>: the guards run when the function is decorated; what comes back is the
  wrapper, which opens the session when called.
\<close>

definition get_message ::
  "predicate \<Rightarrow> bot \<Rightarrow> exn + (message list \<Rightarrow> bot \<Rightarrow> (bot \<times> session) option)" where
  "get_message f b =
     (if \<not> truthy_token (token (config b)) then Inl NoTokenError
      else Inr (wrapper f))"

definition tb_get_message ::
  "predicate \<Rightarrow> bot \<Rightarrow> exn + (message list \<Rightarrow> bot \<Rightarrow> (bot \<times> session) option)" where
  "tb_get_message f b =
     (if \<not> truthy_token (token (config b)) then Inl NoTokenError
      else if client_ids (config b) = [] then Inl NoClientIdsError
      else Inr (tb_wrapper f))"

subsection \<open>Registration\<close>

text \<open>
  \<open>draws i\<close> is what the \<open>i\<close>-th call of \<^verbatim>\<open>randint(0, 9)\<close> returns in this call of
  \<^verbatim>\<open>register_client\<close>.
\<close>

definition password :: "(nat \<Rightarrow> int) \<Rightarrow> string" where
  "password draws = concat (map (\<lambda>i. str_int (draws i)) [0..<8])"

definition warning_line :: "string \<Rightarrow> string" where
  "warning_line pw =
     ''Please send the password '' @ [CHR 0x27] @ pw @ [CHR 0x27] @ '' to your bot.''"

definition handle_passwd :: "string \<Rightarrow> predicate" where
  "handle_passwd pw msg b =
     (if msg_text msg = pw then
        (let b1 = b\<lparr>config := (config b)\<lparr>client_ids :=
                     dict_update (client_ids (config b)) [(chat_id msg, full_name msg)]\<rparr>\<rparr>
         in case write_config (config b1) (disk b1) of
              Inl e \<Rightarrow> (Inl e, b1)
            | Inr s \<Rightarrow> (Inr (PyBool True), b1\<lparr>disk := s\<rparr>))
      else (Inr (PyBool False), b))"

text \<open>
  \<^verbatim>\<open>register_client\<close>: password, warning on the console, decoration (the guards), the
  session. \<open>None\<close> when the session never ends.
\<close>

definition register_client ::
  "(nat \<Rightarrow> int) \<Rightarrow> message list \<Rightarrow> bot \<Rightarrow> ((exn + unit) \<times> bot) option" where
  "register_client draws inbound b =
     (let pw = password draws;
          b1 = b\<lparr>console := console b @ [warning_line pw]\<rparr>
      in case get_message (handle_passwd pw) b1 of
           Inl e \<Rightarrow> Some (Inl e, b1)
         | Inr w \<Rightarrow>
             (case w inbound b1 of
                None \<Rightarrow> None
              | Some (b2, s) \<Rightarrow> Some (Inr (), b2)))"

definition tb_register_client ::
  "(nat \<Rightarrow> int) \<Rightarrow> message list \<Rightarrow> bot \<Rightarrow> ((exn + unit) \<times> bot) option" where
  "tb_register_client draws inbound b =
     (let pw = password draws;
          b1 = b\<lparr>console := console b @ [warning_line pw]\<rparr>
      in case tb_get_message (handle_passwd pw) b1 of
           Inl e \<Rightarrow> Some (Inl e, b1)
         | Inr w \<Rightarrow>
             (case w inbound b1 of
                None \<Rightarrow> None
              | Some (b2, s) \<Rightarrow> Some (Inr (), b2)))"

text \<open>
  \<^verbatim>\<open>add_client\<close> of \<^verbatim>\<open>telegram_bot.py\<close>: with no client, or an empty dict, it registers one
  instead.
\<close>

definition tb_add_client ::
  "(int \<times> string) list option \<Rightarrow> (nat \<Rightarrow> int) \<Rightarrow> message list \<Rightarrow> bot \<Rightarrow> ((exn + unit) \<times> bot) option"
where
  "tb_add_client client draws inbound b =
     (case client of
        None \<Rightarrow> tb_register_client draws inbound b
      | Some c \<Rightarrow> if c = [] then tb_register_client draws inbound b else Some (add_client c b))"

section \<open>Persistence and sample inputs\<close>

text \<open>The backing file holds the pickle of the bot's current credential and registry.\<close>

definition persisted :: "bot \<Rightarrow> bool" where
  "persisted b =
     (files (disk b) (filepath (config b)) = Some (Pickle (config_dict (config b))))"

text \<open>Concrete inputs on which the theorems below are run.\<close>

definition cfg_path :: path where
  "cfg_path = [''telegram_config.pickle'']"

definition fresh_disk :: fs where
  "fresh_disk = \<lparr>files = Map.empty, dirs = {[]}\<rparr>"


definition bot_fresh :: bot where
  "bot_fresh =
     \<lparr>config = \<lparr>filepath = cfg_path, token = None, client_ids = []\<rparr>,
      disk = fresh_disk, console = []\<rparr>"

definition bot_token :: bot where
  "bot_token =
     \<lparr>config = \<lparr>filepath = cfg_path, token = Some ''123:abc'', client_ids = []\<rparr>,
      disk = fresh_disk, console = []\<rparr>"

definition bot_three :: bot where
  "bot_three =
     \<lparr>config = \<lparr>filepath = cfg_path, token = Some ''123:abc'',
                client_ids = [(1, ''Ann''), (2, ''Ben''), (3, ''Cy'')]\<rparr>,
      disk = fresh_disk, console = []\<rparr>"

definition tx_fail_at :: "int \<Rightarrow> transport" where
  "tx_fail_at c chat message parse_mode = (if chat = c then Some TelegramError else None)"

definition answers :: "pyval \<Rightarrow> predicate" where
  "answers v msg b = (Inr v, b)"

definition sample_msg :: message where
  "sample_msg = \<lparr>chat_id = 5, full_name = ''Alice'', msg_text = ''11111111''\<rparr>"

definition draws_ones :: "nat \<Rightarrow> int" where
  "draws_ones i = 1"

section \<open>Store: load and save\<close>

lemma write_config_stores:
  "\<exists>s'. write_config c s = Inr s' \<and>
        files s' (filepath c) = Some (Pickle (config_dict c))"
  by (simp add: write_config_def open_wb_def makedirs_def pickle_dump_def)

lemma read_config_pickled:
  "files s p = Some (Pickle (config_dict c)) \<Longrightarrow>
   read_config s p = Inr (py_token (token c), py_clients (client_ids c))"
  by (simp add: read_config_def open_rb_def config_dict_def)

lemma Config_init_pickled:
  "files s p = Some (Pickle (config_dict c)) \<Longrightarrow>
   Config_init s p = Inr (py_token (token c), py_clients (client_ids c))"
  by (simp add: Config_init_def read_config_pickled)

text \<open>
  The Python values of two credentials, or of two registries, are equal only when the
  credentials, or the registries, are.
\<close>

lemma py_token_inj: "py_token t = py_token t' \<Longrightarrow> t = t'"
  by (auto simp: py_token_def split: option.splits)

lemma py_clients_inj: "py_clients c = py_clients c' \<Longrightarrow> c = c'"
proof -
  have "inj (\<lambda>(k, v). (PyInt k, PyStr v))"
    by (auto simp: inj_on_def)
  then show "py_clients c = py_clients c' \<Longrightarrow> c = c'"
    by (simp add: py_clients_def inj_map_eq_map)
qed

text \<open>
  Claim C2: for every credential (a string or absent), every registry and every path,
  \<^verbatim>\<open>write_config\<close> succeeds and \<^verbatim>\<open>Config.__init__\<close> on the same path then returns the
  credential and the registry that were saved; the absent credential and the empty
  registry are instances.
\<close>

theorem save_then_load:
  "\<exists>s'. write_config c s = Inr s' \<and>
        Config_init s' (filepath c) = Inr (py_token (token c), py_clients (client_ids c))"
proof -
  obtain s' where w: "write_config c s = Inr s'"
    and f: "files s' (filepath c) = Some (Pickle (config_dict c))"
    using write_config_stores by blast
  from f have "Config_init s' (filepath c) = Inr (py_token (token c), py_clients (client_ids c))"
    by (rule Config_init_pickled)
  with w show ?thesis by blast
qed






text \<open>Corrupt bytes, on which \<^verbatim>\<open>pickle.load\<close> raises \<^verbatim>\<open>UnpicklingError\<close>, give \<^verbatim>\<open>ConfigError\<close>.\<close>

lemma load_corrupt_file:
  "files s p = Some Corrupt \<Longrightarrow> Config_init s p = Inl ConfigError"
  by (simp add: Config_init_def read_config_def open_rb_def)

text \<open>
  Claim C7: a present file that cannot be read as a config record makes loading fail with
  \<^verbatim>\<open>ConfigError\<close> and nothing else. The code does so only for \<^verbatim>\<open>UnpicklingError\<close>: an empty
  file ends in \<^verbatim>\<open>EOFError\<close>, and a file that holds the pickle of a list ends in
  \<^verbatim>\<open>AttributeError\<close> at \<^verbatim>\<open>config.get\<close>.
\<close>

theorem load_unreadable_file_other_errors:
  "Config_init (fresh_disk\<lparr>files := [cfg_path \<mapsto> Truncated]\<rparr>) cfg_path = Inl EOFError \<and>
   Config_init (fresh_disk\<lparr>files := [cfg_path \<mapsto> Pickle (PyList [])]\<rparr>) cfg_path
     = Inl AttributeError"
  by (simp add: Config_init_def read_config_def open_rb_def)

section \<open>Sending\<close>

lemma send_each_stops:
  "\<forall>x\<in>set pre. tx x m pm = None \<Longrightarrow> tx c m pm = Some e \<Longrightarrow>
   send_each tx m pm (pre @ c # post) calls =
     (Inl e, calls @ map (\<lambda>i. (i, m, pm)) (pre @ [c]))"
  by (induction pre arbitrary: calls) auto

lemma send_each_all:
  "\<forall>x\<in>set ids. tx x m pm = None \<Longrightarrow>
   send_each tx m pm ids calls = (Inr (), calls @ map (\<lambda>i. (i, m, pm)) ids)"
  by (induction ids arbitrary: calls) auto

lemma recipients_truthy: "recipients arg b \<noteq> [] \<Longrightarrow> truthy_ids (rebound arg b)"
  by (cases arg) (auto simp: recipients_def rebound_def)




text \<open>
  Claim C5: in a broadcast over the recipients \<open>pre @ c # post\<close>, when the sends to \<open>pre\<close>
  go through and the send to \<open>c\<close> raises \<open>e\<close>, then \<^verbatim>\<open>send_message\<close> raises \<open>e\<close>; the
  transport has been called for \<open>pre\<close> and for \<open>c\<close>, in order, and for nobody in \<open>post\<close>,
  and nothing is done about the sends to \<open>pre\<close>.
\<close>

theorem broadcast_stops_at_failure:
  assumes "truthy_token (token (config b))"
    and "recipients arg b = pre @ c # post"
    and "\<forall>x\<in>set pre. tx x m pm = None"
    and "tx c m pm = Some e"
  shows "send_message tx m pm arg b = (Inl e, map (\<lambda>i. (i, m, pm)) (pre @ [c]))"
proof -
  have "send_each tx m pm (pre @ c # post) [] = (Inl e, [] @ map (\<lambda>i. (i, m, pm)) (pre @ [c]))"
    using assms(3,4) by (rule send_each_stops)
  moreover have "truthy_ids (rebound arg b)"
    using assms(2) by (intro recipients_truthy) simp
  moreover have "ids_of (rebound arg b) = pre @ c # post"
    using assms(2) by (simp add: recipients_def)
  ultimately show ?thesis
    using assms(1) by (simp add: send_message_def Let_def)
qed

theorem broadcast_stops_at_failure_witness:
  "send_message (tx_fail_at 2) ''hi'' None NoIds bot_three =
     (Inl TelegramError, [(1, ''hi'', None), (2, ''hi'', None)])"
proof -
  have a: "truthy_token (token (config bot_three))"
    by (simp add: bot_three_def truthy_token_def)
  have b: "recipients NoIds bot_three = [1] @ 2 # [3]"
    by (simp add: recipients_def rebound_def bot_three_def dict_keys_def)
  have c: "\<forall>x\<in>set [1]. tx_fail_at 2 x ''hi'' None = None"
    by (simp add: tx_fail_at_def)
  have d: "tx_fail_at 2 2 ''hi'' None = Some TelegramError"
    by (simp add: tx_fail_at_def)
  from broadcast_stops_at_failure
    [where tx = "tx_fail_at 2" and m = "''hi''" and pm = None and e = TelegramError, OF a b c d]
  show ?thesis
    by simp
qed

section \<open>Mutations reach the file\<close>

lemma persisted_loads:
  "persisted b \<Longrightarrow>
   Config_init (disk b) (filepath (config b)) =
     Inr (py_token (token (config b)), py_clients (client_ids (config b)))"
  by (simp add: persisted_def Config_init_pickled)

lemma set_bot_token_persisted:
  "fst (set_bot_token tok typed b) = Inr () \<and> persisted (snd (set_bot_token tok typed b))"
proof -
  let ?c = "(config b)\<lparr>token := Some (if truthy_token tok then the tok else typed)\<rparr>"
  obtain s' where "write_config ?c (disk b) = Inr s'"
    and "files s' (filepath ?c) = Some (Pickle (config_dict ?c))"
    using write_config_stores by blast
  then show ?thesis
    by (simp add: set_bot_token_def persisted_def Let_def)
qed

lemma add_client_persisted:
  "fst (add_client c b) = Inr () \<and> persisted (snd (add_client c b))"
proof -
  let ?c = "(config b)\<lparr>client_ids := dict_update (client_ids (config b)) c\<rparr>"
  obtain s' where "write_config ?c (disk b) = Inr s'"
    and "files s' (filepath ?c) = Some (Pickle (config_dict ?c))"
    using write_config_stores by blast
  then show ?thesis
    by (simp add: add_client_def persisted_def Let_def)
qed

lemma handle_passwd_accept:
  assumes "msg_text m = pw"
  shows "fst (handle_passwd pw m b) = Inr (PyBool True) \<and>
         persisted (snd (handle_passwd pw m b)) \<and>
         console (snd (handle_passwd pw m b)) = console b"
proof -
  let ?c = "(config b)\<lparr>client_ids :=
              dict_update (client_ids (config b)) [(chat_id m, full_name m)]\<rparr>"
  obtain s' where "write_config ?c (disk b) = Inr s'"
    and "files s' (filepath ?c) = Some (Pickle (config_dict ?c))"
    using write_config_stores by blast
  with assms show ?thesis
    by (simp add: handle_passwd_def persisted_def Let_def del: dict_update.simps)
qed

lemma handle_passwd_reject:
  "msg_text m \<noteq> pw \<Longrightarrow> handle_passwd pw m b = (Inr (PyBool False), b)"
  by (simp add: handle_passwd_def)

text \<open>
  One message of the registration session: the password stops the session with the file
  written, anything else leaves the bot as it was and the session running.
\<close>

lemma handle_msg_passwd_cases:
  "(msg_text m = pw \<and> stopped (snd (snd (handle_msg (handle_passwd pw) m (b, s))))
      \<and> persisted (fst (snd (handle_msg (handle_passwd pw) m (b, s))))
      \<and> console (fst (snd (handle_msg (handle_passwd pw) m (b, s)))) = console b)
   \<or> (msg_text m \<noteq> pw \<and> fst (snd (handle_msg (handle_passwd pw) m (b, s))) = b
      \<and> stopped (snd (snd (handle_msg (handle_passwd pw) m (b, s)))) = stopped s)"
proof (cases "msg_text m = pw")
  case True
  from handle_passwd_accept [OF True, of b]
  obtain b' where "handle_passwd pw m b = (Inr (PyBool True), b')"
    and "persisted b'" and "console b' = console b"
    by (cases "handle_passwd pw m b") auto
  with True show ?thesis
    by (simp add: handle_msg_def Let_def)
next
  case False
  then show ?thesis
    by (simp add: handle_msg_def Let_def handle_passwd_reject)
qed

lemma listen_passwd:
  "\<not> stopped s \<Longrightarrow>
   listen (handle_msg (handle_passwd pw)) inbound (b, s) = Some (b', s') \<Longrightarrow>
   persisted b' \<and> console b' = console b"
proof (induction inbound arbitrary: s)
  case Nil
  then show ?case by simp
next
  case (Cons m ms)
  obtain r b1 s1 where h: "handle_msg (handle_passwd pw) m (b, s) = (r, b1, s1)"
    by (cases "handle_msg (handle_passwd pw) m (b, s)") auto
  show ?case
  proof (cases "msg_text m = pw")
    case True
    with handle_msg_passwd_cases [of m pw b s] h
    have "stopped s1" "persisted b1" "console b1 = console b"
      by auto
    with Cons.prems(2) h show ?thesis
      by (simp add: Let_def)
  next
    case False
    with handle_msg_passwd_cases [of m pw b s] h Cons.prems(1)
    have "b1 = b" and go: "\<not> stopped s1"
      by auto
    with Cons.prems(2) h
    have "listen (handle_msg (handle_passwd pw)) ms (b, s1) = Some (b', s')"
      by (simp add: Let_def)
    with Cons.IH [of s1] go show ?thesis
      by simp
  qed
qed

lemma tb_listen_passwd:
  "\<not> stopped s \<Longrightarrow>
   listen (tb_handle_msg (handle_passwd pw)) inbound (b, s) = Some (b', s') \<Longrightarrow>
   persisted b' \<and> console b' = console b"
proof (induction inbound arbitrary: s)
  case Nil
  then show ?case by simp
next
  case (Cons m ms)
  obtain r b1 s1 where h: "tb_handle_msg (handle_passwd pw) m (b, s) = (r, b1, s1)"
    by (cases "tb_handle_msg (handle_passwd pw) m (b, s)") auto
  show ?case
  proof (cases "chat_id m \<in> set (dict_keys (client_ids (config b))) \<and> msg_text m = pw")
    case True
    with handle_msg_passwd_cases [of m pw b s] h
    have "stopped s1" "persisted b1" "console b1 = console b"
      by (auto simp: tb_handle_msg_def)
    with Cons.prems(2) h show ?thesis
      by (simp add: Let_def)
  next
    case False
    with handle_msg_passwd_cases [of m pw b s] h Cons.prems(1)
    have "b1 = b" and go: "\<not> stopped s1"
      by (auto simp: tb_handle_msg_def split: if_splits)
    with Cons.prems(2) h
    have "listen (tb_handle_msg (handle_passwd pw)) ms (b, s1) = Some (b', s')"
      by (simp add: Let_def)
    with Cons.IH [of s1] go show ?thesis
      by simp
  qed
qed

lemma register_client_returns:
  assumes "register_client draws inbound b = Some (Inr (), b')"
  shows "persisted b' \<and> console b' = console b @ [warning_line (password draws)]"
proof -
  let ?b1 = "b\<lparr>console := console b @ [warning_line (password draws)]\<rparr>"
  from assms obtain s' where
    "listen (handle_msg (handle_passwd (password draws))) inbound (?b1, new_session)
       = Some (b', s')"
    by (auto simp: register_client_def get_message_def wrapper_def Let_def
             split: if_splits option.splits)
  moreover have "\<not> stopped new_session"
    by (simp add: new_session_def)
  ultimately have "persisted b' \<and> console b' = console ?b1"
    by (rule listen_passwd [rotated])
  then show ?thesis by simp
qed

lemma tb_register_client_returns:
  assumes "tb_register_client draws inbound b = Some (Inr (), b')"
  shows "persisted b' \<and> console b' = console b @ [warning_line (password draws)]"
proof -
  let ?b1 = "b\<lparr>console := console b @ [warning_line (password draws)]\<rparr>"
  from assms obtain s' where
    "listen (tb_handle_msg (handle_passwd (password draws))) inbound (?b1, new_session)
       = Some (b', s')"
    by (auto simp: tb_register_client_def tb_get_message_def tb_wrapper_def Let_def
             split: if_splits option.splits)
  moreover have "\<not> stopped new_session"
    by (simp add: new_session_def)
  ultimately have "persisted b' \<and> console b' = console ?b1"
    by (rule tb_listen_passwd [rotated])
  then show ?thesis by simp
qed

lemma tb_add_client_returns:
  assumes "tb_add_client client draws inbound b = Some (Inr (), b')"
  shows "persisted b'"
proof (cases "client = None \<or> client = Some []")
  case True
  with assms have "tb_register_client draws inbound b = Some (Inr (), b')"
    by (auto simp: tb_add_client_def)
  then show ?thesis
    using tb_register_client_returns by blast
next
  case False
  then obtain c where "client = Some c" "c \<noteq> []"
    by (cases client) auto
  with assms have "add_client c b = (Inr (), b')"
    by (simp add: tb_add_client_def)
  with add_client_persisted [of c b] show ?thesis
    by simp
qed

text \<open>
  Claim C3: when \<^verbatim>\<open>set_bot_token\<close>, \<^verbatim>\<open>add_client\<close> (of either module) or the registration
  flow returns, the config file holds the pickle of the credential and registry the bot
  then has; so does the accepting call of \<^verbatim>\<open>handle_passwd\<close>, which is where the
  registration flow changes the registry. \<^verbatim>\<open>set_bot_token\<close> and \<^verbatim>\<open>add_client\<close> always
  return.
\<close>

theorem mutations_persisted:
  "fst (set_bot_token tok typed b) = Inr () \<and>
   persisted (snd (set_bot_token tok typed b)) \<and>
   fst (add_client c b) = Inr () \<and>
   persisted (snd (add_client c b)) \<and>
   (msg_text m = pw \<longrightarrow> persisted (snd (handle_passwd pw m b))) \<and>
   (register_client draws inbound b = Some (Inr (), b') \<longrightarrow> persisted b') \<and>
   (tb_add_client client draws inbound b = Some (Inr (), b'') \<longrightarrow> persisted b'')"
  using set_bot_token_persisted [of tok typed b] add_client_persisted [of c b]
    handle_passwd_accept [of m pw b] register_client_returns [of draws inbound b b']
    tb_add_client_returns [of client draws inbound b b'']
  by blast

lemma password_draws_ones: "password draws_ones = ''11111111''"
  by code_simp

theorem mutations_persisted_witness:
  "\<exists>b'. register_client draws_ones [sample_msg] bot_token = Some (Inr (), b') \<and>
        client_ids (config b') = [(5, ''Alice'')] \<and> persisted b'"
proof -
  have "\<exists>b'. register_client draws_ones [sample_msg] bot_token = Some (Inr (), b') \<and>
             client_ids (config b') = [(5, ''Alice'')]"
    by (simp add: register_client_def get_message_def wrapper_def handle_msg_def
        handle_passwd_def password_draws_ones sample_msg_def bot_token_def truthy_token_def
        new_session_def write_config_def open_wb_def cfg_path_def fresh_disk_def parent_def
        Let_def)
  then obtain b' where r: "register_client draws_ones [sample_msg] bot_token = Some (Inr (), b')"
    and c: "client_ids (config b') = [(5, ''Alice'')]"
    by blast
  from r mutations_persisted [where draws = draws_ones and inbound = "[sample_msg]"
      and b = bot_token and b' = b']
  have "persisted b'"
    by blast
  with r c show ?thesis
    by blast
qed

section \<open>The registry\<close>

lemma map_of_dict_setitem: "map_of (dict_setitem d k v) = (map_of d)(k \<mapsto> v)"
  by (induction d) (auto simp: fun_eq_iff)

lemma keys_dict_setitem:
  "set (dict_keys (dict_setitem d k v)) = insert k (set (dict_keys d))"
proof -
  have "set (dict_keys (dict_setitem d k v)) = dom (map_of (dict_setitem d k v))"
    by (simp add: dict_keys_def dom_map_of_conv_image_fst)
  also have "\<dots> = insert k (dom (map_of d))"
    by (simp add: map_of_dict_setitem)
  also have "\<dots> = insert k (set (dict_keys d))"
    by (simp add: dict_keys_def dom_map_of_conv_image_fst)
  finally show ?thesis .
qed

text \<open>Updating with several items: a later item for the same key wins.\<close>

lemma map_of_dict_update: "map_of (dict_update d c) = map_of d ++ map_of (rev c)"
proof (induction c arbitrary: d)
  case Nil
  then show ?case by simp
next
  case (Cons kv c)
  obtain k v where kv: "kv = (k, v)"
    by (cases kv)
  have "map_of (dict_update d (kv # c)) = (map_of d)(k \<mapsto> v) ++ map_of (rev c)"
    by (simp only: kv dict_update.simps Cons.IH map_of_dict_setitem)
  also have "\<dots> = map_of d ++ (map_of (rev c @ [(k, v)]))"
    by (simp add: fun_eq_iff map_add_def split: option.splits)
  finally show ?case
    by (simp add: kv)
qed

lemma add_client_registry:
  "client_ids (config (snd (add_client c b))) = dict_update (client_ids (config b)) c"
  by (simp add: add_client_def Let_def split: sum.splits)

text \<open>
  Claim C9: after \<^verbatim>\<open>add_client({k: v})\<close> the registry maps \<open>k\<close> to \<open>v\<close> and every other key to
  what it mapped to before; its keys are the old keys and \<open>k\<close>; a second \<^verbatim>\<open>add_client\<close> for
  the same key leaves the later label; and from the empty registry,
  \<^verbatim>\<open>add_client({5: "Alice"})\<close> then \<^verbatim>\<open>add_client({5: "Bob"})\<close> leaves exactly \<^verbatim>\<open>{5: "Bob"}\<close>.
\<close>

theorem add_client_last_write_wins:
  "map_of (client_ids (config (snd (add_client [(k, v)] b))))
     = (map_of (client_ids (config b)))(k \<mapsto> v) \<and>
   set (dict_keys (client_ids (config (snd (add_client [(k, v)] b)))))
     = insert k (set (dict_keys (client_ids (config b)))) \<and>
   map_of (client_ids (config (snd (add_client [(k, v2)] (snd (add_client [(k, v1)] b))))))
     = (map_of (client_ids (config b)))(k \<mapsto> v2) \<and>
   client_ids (config (snd (add_client [(5, ''Bob'')] (snd (add_client [(5, ''Alice'')]
       (b\<lparr>config := (config b)\<lparr>client_ids := []\<rparr>\<rparr>))))))
     = [(5, ''Bob'')]"
  by (simp add: add_client_registry map_of_dict_setitem keys_dict_setitem)

section \<open>Listening\<close>

text \<open>
  Claim C4, as the code has it: \<^verbatim>\<open>get_message\<close> of either module fails with
  \<^verbatim>\<open>NoTokenError\<close> when the credential is unset (\<^verbatim>\<open>None\<close> or the empty string). With the
  credential set, \<^verbatim>\<open>get_message\<close> of \<^verbatim>\<open>telegram_utils/main.py\<close> returns the wrapper that
  opens the session, whatever the registry; \<^verbatim>\<open>get_message\<close> of \<^verbatim>\<open>telegram_bot.py\<close> fails
  with \<^verbatim>\<open>NoClientIdsError\<close> when the registry is empty and returns the wrapper otherwise.
\<close>

theorem get_message_preconditions:
  "(\<not> truthy_token (token (config b)) \<longrightarrow>
      get_message f b = Inl NoTokenError \<and> tb_get_message f b = Inl NoTokenError) \<and>
   (truthy_token (token (config b)) \<longrightarrow> get_message f b = Inr (wrapper f)) \<and>
   (truthy_token (token (config b)) \<and> client_ids (config b) = [] \<longrightarrow>
      tb_get_message f b = Inl NoClientIdsError) \<and>
   (truthy_token (token (config b)) \<and> client_ids (config b) \<noteq> [] \<longrightarrow>
      tb_get_message f b = Inr (tb_wrapper f))"
  by (simp add: get_message_def tb_get_message_def)

theorem get_message_preconditions_witness:
  "get_message (answers PyNone) bot_fresh = Inl NoTokenError \<and>
   get_message (answers PyNone) bot_token = Inr (wrapper (answers PyNone)) \<and>
   get_message (answers PyNone) bot_three = Inr (wrapper (answers PyNone)) \<and>
   tb_get_message (answers PyNone) bot_three = Inr (tb_wrapper (answers PyNone))"
proof -
  have a: "\<not> truthy_token (token (config bot_fresh))"
    by (simp add: bot_fresh_def truthy_token_def)
  have b: "truthy_token (token (config bot_token))"
    by (simp add: bot_token_def truthy_token_def)
  have c: "truthy_token (token (config bot_three))" "client_ids (config bot_three) \<noteq> []"
    by (simp_all add: bot_three_def truthy_token_def)
  from a get_message_preconditions [where b = bot_fresh and f = "answers PyNone"]
  have 1: "get_message (answers PyNone) bot_fresh = Inl NoTokenError"
    by blast
  from b get_message_preconditions [where b = bot_token and f = "answers PyNone"]
  have 2: "get_message (answers PyNone) bot_token = Inr (wrapper (answers PyNone))"
    by blast
  from c get_message_preconditions [where b = bot_three and f = "answers PyNone"]
  have 3: "get_message (answers PyNone) bot_three = Inr (wrapper (answers PyNone))"
    and 4: "tb_get_message (answers PyNone) bot_three = Inr (tb_wrapper (answers PyNone))"
    by blast+
  from 1 2 3 4 show ?thesis
    by blast
qed

text \<open>
  With the credential set and the registry empty, \<^verbatim>\<open>get_message\<close> of \<^verbatim>\<open>telegram_bot.py\<close>
  does not open a session: it raises \<^verbatim>\<open>NoClientIdsError\<close>.
\<close>

theorem tb_get_message_empty_registry:
  "truthy_token (token (config bot_token)) \<and> client_ids (config bot_token) = [] \<and>
   tb_get_message (answers (PyBool True)) bot_token = Inl NoClientIdsError"
  by (simp add: tb_get_message_def bot_token_def truthy_token_def)

text \<open>
  Claim C10: in a running session, when the predicate returns a value other than the
  object \<^verbatim>\<open>False\<close>, the handler stores the text, replies \<^verbatim>\<open>Accepted.\<close> and the session ends
  there, whatever messages follow; when it returns \<^verbatim>\<open>False\<close>, the handler replies
  \<^verbatim>\<open>Invalid!\<close> and the session goes on with the next message. In \<^verbatim>\<open>telegram_bot.py\<close> the
  same holds for a message from a registered chat, the only ones its predicate is asked
  about.
\<close>

theorem predicate_tested_by_identity:
  "(fst (f m b) = Inr res \<and> res \<noteq> PyBool False \<longrightarrow>
      listen (handle_msg f) (m # ms) (b, s) =
        Some (snd (f m b),
              s\<lparr>chat_data := dict_setitem (chat_data s) (chat_id m) (msg_text m),
                replies := replies s @ [(chat_id m, ''Accepted.'')], stopped := True\<rparr>)) \<and>
   (fst (f m b) = Inr (PyBool False) \<and> \<not> stopped s \<longrightarrow>
      listen (handle_msg f) (m # ms) (b, s) =
        listen (handle_msg f) ms
          (snd (f m b),
           s\<lparr>chat_data := dict_setitem (chat_data s) (chat_id m) (msg_text m),
             replies := replies s @ [(chat_id m, ''Invalid!'')]\<rparr>)) \<and>
   (chat_id m \<in> set (dict_keys (client_ids (config b))) \<and>
    fst (f m b) = Inr res \<and> res \<noteq> PyBool False \<longrightarrow>
      listen (tb_handle_msg f) (m # ms) (b, s) =
        Some (snd (f m b),
              s\<lparr>chat_data := dict_setitem (chat_data s) (chat_id m) (msg_text m),
                replies := replies s @ [(chat_id m, ''Accepted.'')], stopped := True\<rparr>)) \<and>
   (chat_id m \<in> set (dict_keys (client_ids (config b))) \<and>
    fst (f m b) = Inr (PyBool False) \<and> \<not> stopped s \<longrightarrow>
      listen (tb_handle_msg f) (m # ms) (b, s) =
        listen (tb_handle_msg f) ms
          (snd (f m b),
           s\<lparr>chat_data := dict_setitem (chat_data s) (chat_id m) (msg_text m),
             replies := replies s @ [(chat_id m, ''Invalid!'')]\<rparr>))"
proof (intro conjI impI)
  assume "fst (f m b) = Inr res \<and> res \<noteq> PyBool False"
  then show "listen (handle_msg f) (m # ms) (b, s) =
        Some (snd (f m b),
              s\<lparr>chat_data := dict_setitem (chat_data s) (chat_id m) (msg_text m),
                replies := replies s @ [(chat_id m, ''Accepted.'')], stopped := True\<rparr>)"
    by (cases "f m b") (simp add: handle_msg_def Let_def)
next
  assume "fst (f m b) = Inr (PyBool False) \<and> \<not> stopped s"
  then show "listen (handle_msg f) (m # ms) (b, s) =
        listen (handle_msg f) ms
          (snd (f m b),
           s\<lparr>chat_data := dict_setitem (chat_data s) (chat_id m) (msg_text m),
             replies := replies s @ [(chat_id m, ''Invalid!'')]\<rparr>)"
    by (cases "f m b") (simp add: handle_msg_def Let_def)
next
  assume "chat_id m \<in> set (dict_keys (client_ids (config b))) \<and>
    fst (f m b) = Inr res \<and> res \<noteq> PyBool False"
  then show "listen (tb_handle_msg f) (m # ms) (b, s) =
        Some (snd (f m b),
              s\<lparr>chat_data := dict_setitem (chat_data s) (chat_id m) (msg_text m),
                replies := replies s @ [(chat_id m, ''Accepted.'')], stopped := True\<rparr>)"
    by (cases "f m b") (simp add: tb_handle_msg_def handle_msg_def Let_def)
next
  assume "chat_id m \<in> set (dict_keys (client_ids (config b))) \<and>
    fst (f m b) = Inr (PyBool False) \<and> \<not> stopped s"
  then show "listen (tb_handle_msg f) (m # ms) (b, s) =
        listen (tb_handle_msg f) ms
          (snd (f m b),
           s\<lparr>chat_data := dict_setitem (chat_data s) (chat_id m) (msg_text m),
             replies := replies s @ [(chat_id m, ''Invalid!'')]\<rparr>)"
    by (cases "f m b") (simp add: tb_handle_msg_def handle_msg_def Let_def)
qed

theorem predicate_tested_by_identity_witness:
  "listen (handle_msg (answers PyNone)) [sample_msg, sample_msg] (bot_token, new_session) =
     Some (bot_token,
           \<lparr>chat_data = [(5, ''11111111'')], replies = [(5, ''Accepted.'')], stopped = True\<rparr>) \<and>
   listen (handle_msg (answers (PyInt 0))) [sample_msg, sample_msg] (bot_token, new_session) =
     Some (bot_token,
           \<lparr>chat_data = [(5, ''11111111'')], replies = [(5, ''Accepted.'')], stopped = True\<rparr>) \<and>
   listen (handle_msg (answers (PyStr ''''))) [sample_msg, sample_msg] (bot_token, new_session) =
     Some (bot_token,
           \<lparr>chat_data = [(5, ''11111111'')], replies = [(5, ''Accepted.'')], stopped = True\<rparr>) \<and>
   listen (handle_msg (answers (PyBool False))) [sample_msg] (bot_token, new_session) = None"
proof -
  have a: "fst (answers v sample_msg bot_token) = Inr v"
    and b: "snd (answers v sample_msg bot_token) = bot_token" for v
    by (simp_all add: answers_def)
  have n: "\<not> stopped new_session"
    by (simp add: new_session_def)
  have t: "PyNone \<noteq> PyBool False" "PyInt 0 \<noteq> PyBool False" "PyStr '''' \<noteq> PyBool False"
    by simp_all
  note th = predicate_tested_by_identity [where m = sample_msg and b = bot_token
      and s = new_session]
  from a [of PyNone] t(1) th [where f = "answers PyNone" and res = PyNone and ms = "[sample_msg]"]
  have 1: "listen (handle_msg (answers PyNone)) [sample_msg, sample_msg] (bot_token, new_session) =
     Some (snd (answers PyNone sample_msg bot_token),
           new_session\<lparr>chat_data := dict_setitem (chat_data new_session) (chat_id sample_msg)
                          (msg_text sample_msg),
             replies := replies new_session @ [(chat_id sample_msg, ''Accepted.'')],
             stopped := True\<rparr>)"
    by blast
  from a [of "PyInt 0"] t(2)
    th [where f = "answers (PyInt 0)" and res = "PyInt 0" and ms = "[sample_msg]"]
  have 2: "listen (handle_msg (answers (PyInt 0))) [sample_msg, sample_msg] (bot_token, new_session) =
     Some (snd (answers (PyInt 0) sample_msg bot_token),
           new_session\<lparr>chat_data := dict_setitem (chat_data new_session) (chat_id sample_msg)
                          (msg_text sample_msg),
             replies := replies new_session @ [(chat_id sample_msg, ''Accepted.'')],
             stopped := True\<rparr>)"
    by blast
  from a [of "PyStr ''''"] t(3)
    th [where f = "answers (PyStr '''')" and res = "PyStr ''''" and ms = "[sample_msg]"]
  have 3: "listen (handle_msg (answers (PyStr ''''))) [sample_msg, sample_msg] (bot_token, new_session) =
     Some (snd (answers (PyStr '''') sample_msg bot_token),
           new_session\<lparr>chat_data := dict_setitem (chat_data new_session) (chat_id sample_msg)
                          (msg_text sample_msg),
             replies := replies new_session @ [(chat_id sample_msg, ''Accepted.'')],
             stopped := True\<rparr>)"
    by blast
  from a [of "PyBool False"] n
    th [where f = "answers (PyBool False)" and ms = "[]"]
  have 4: "listen (handle_msg (answers (PyBool False))) [sample_msg] (bot_token, new_session) =
     listen (handle_msg (answers (PyBool False))) []
       (snd (answers (PyBool False) sample_msg bot_token),
        new_session\<lparr>chat_data := dict_setitem (chat_data new_session) (chat_id sample_msg)
                       (msg_text sample_msg),
          replies := replies new_session @ [(chat_id sample_msg, ''Invalid!'')]\<rparr>)"
    by blast
  have e: "new_session\<lparr>chat_data := dict_setitem (chat_data new_session) (chat_id sample_msg)
                          (msg_text sample_msg),
             replies := replies new_session @ [(chat_id sample_msg, ''Accepted.'')],
             stopped := True\<rparr> =
           \<lparr>chat_data = [(5, ''11111111'')], replies = [(5, ''Accepted.'')], stopped = True\<rparr>"
    by (simp add: new_session_def sample_msg_def)
  show ?thesis
    by (simp only: 1 2 3 4 b e listen.simps(1) simp_thms)
qed

section \<open>The registration password\<close>

lemma digit_char_in: "n < 10 \<Longrightarrow> digit_char n \<in> set ''0123456789''"
  unfolding digit_char_def by (rule nth_mem) simp

lemma digit_char_inj: "m < 10 \<Longrightarrow> n < 10 \<Longrightarrow> digit_char m = digit_char n \<Longrightarrow> m = n"
proof -
  assume a: "m < 10" "n < 10" "digit_char m = digit_char n"
  have "distinct ''0123456789''"
    by simp
  with a show "m = n"
    unfolding digit_char_def by (simp add: nth_eq_iff_index_eq)
qed

lemma str_int_digit: "0 \<le> d \<Longrightarrow> d \<le> 9 \<Longrightarrow> str_int d = [digit_char (nat d)]"
  by (simp add: str_int_def)

lemma concat_singletons: "concat (map (\<lambda>i. [f i]) xs) = map f xs"
  by (induction xs) auto

lemma password_digits:
  assumes "\<forall>i<8. 0 \<le> draws i \<and> draws i \<le> 9"
  shows "password draws = map (\<lambda>i. digit_char (nat (draws i))) [0..<8]"
proof -
  have "map (\<lambda>i. str_int (draws i)) [0..<8] = map (\<lambda>i. [digit_char (nat (draws i))]) [0..<8]"
    using assms by (intro map_cong refl) (simp add: str_int_digit)
  then show ?thesis
    by (simp only: password_def concat_singletons)
qed

lemma password_shape:
  assumes "\<forall>i<8. 0 \<le> draws i \<and> draws i \<le> 9"
  shows "length (password draws) = 8 \<and> set (password draws) \<subseteq> set ''0123456789''"
proof -
  have p: "password draws = map (\<lambda>i. digit_char (nat (draws i))) [0..<8]"
    using assms by (rule password_digits)
  have "\<And>i. i < 8 \<Longrightarrow> digit_char (nat (draws i)) \<in> set ''0123456789''"
    using assms by (intro digit_char_in) auto
  then have "set (map (\<lambda>i. digit_char (nat (draws i))) [0..<8]) \<subseteq> set ''0123456789''"
    by (auto simp del: set_simps upt_Suc)
  with p show ?thesis
    by simp
qed

text \<open>Two calls that show the same password drew the same eight numbers.\<close>

lemma password_inj:
  assumes "\<forall>i<8. 0 \<le> d i \<and> d i \<le> 9" and "\<forall>i<8. 0 \<le> d' i \<and> d' i \<le> 9"
    and "password d = password d'" and "i < 8"
  shows "d i = d' i"
proof -
  have "map (\<lambda>i. digit_char (nat (d i))) [0..<8] = map (\<lambda>i. digit_char (nat (d' i))) [0..<8]"
    using assms(1-3) by (simp only: password_digits)
  then have "\<forall>j\<in>set [0..<8]. digit_char (nat (d j)) = digit_char (nat (d' j))"
    by (simp only: map_eq_conv)
  with \<open>i < 8\<close> have "digit_char (nat (d i)) = digit_char (nat (d' i))"
    by simp
  moreover have "nat (d i) < 10" "nat (d' i) < 10"
    using assms(1,2,4) by auto
  ultimately have "nat (d i) = nat (d' i)"
    by (intro digit_char_inj)
  with assms(1,2,4) show ?thesis
    by (metis int_nat_eq)
qed

lemma register_client_console:
  assumes "register_client draws inbound b = Some (r, b')"
  shows "console b' = console b @ [warning_line (password draws)]"
proof (cases "truthy_token (token (config b))")
  case False
  with assms show ?thesis
    by (auto simp: register_client_def get_message_def Let_def)
next
  case True
  let ?b1 = "b\<lparr>console := console b @ [warning_line (password draws)]\<rparr>"
  from assms True obtain s' where
    "listen (handle_msg (handle_passwd (password draws))) inbound (?b1, new_session)
       = Some (b', s')"
    by (auto simp: register_client_def get_message_def wrapper_def Let_def
             split: option.splits)
  moreover have "\<not> stopped new_session"
    by (simp add: new_session_def)
  ultimately have "persisted b' \<and> console b' = console ?b1"
    by (rule listen_passwd [rotated])
  then show ?thesis by simp
qed

lemma tb_register_client_console:
  assumes "tb_register_client draws inbound b = Some (r, b')"
  shows "console b' = console b @ [warning_line (password draws)]"
proof (cases "truthy_token (token (config b)) \<and> client_ids (config b) \<noteq> []")
  case False
  with assms show ?thesis
    by (auto simp: tb_register_client_def tb_get_message_def Let_def split: if_splits)
next
  case True
  let ?b1 = "b\<lparr>console := console b @ [warning_line (password draws)]\<rparr>"
  from assms True obtain s' where
    "listen (tb_handle_msg (handle_passwd (password draws))) inbound (?b1, new_session)
       = Some (b', s')"
    by (auto simp: tb_register_client_def tb_get_message_def tb_wrapper_def Let_def
             split: option.splits)
  moreover have "\<not> stopped new_session"
    by (simp add: new_session_def)
  ultimately have "persisted b' \<and> console b' = console ?b1"
    by (rule tb_listen_passwd [rotated])
  then show ?thesis by simp
qed

text \<open>
  Claim C8: given that each of the eight calls of \<^verbatim>\<open>randint(0, 9)\<close> returns a number from 0
  to 9, the password of a registration is 8 characters long, each of them one of the
  digits \<^verbatim>\<open>0\<close> to \<^verbatim>\<open>9\<close>: the \<open>i\<close>-th character is the digit of the \<open>i\<close>-th number drawn in
  this call. Every call of \<^verbatim>\<open>register_client\<close> (of either module) that returns has written
  the password of its own draws to the console, and two calls have the same password only
  when they drew the same numbers.
\<close>

theorem registration_password:
  assumes "\<forall>i<8. 0 \<le> draws i \<and> draws i \<le> 9"
  shows "length (password draws) = 8 \<and>
         set (password draws) \<subseteq> set ''0123456789'' \<and>
         password draws = map (\<lambda>i. digit_char (nat (draws i))) [0..<8] \<and>
         (register_client draws inbound b = Some (r, b') \<longrightarrow>
            console b' = console b @ [warning_line (password draws)]) \<and>
         (tb_register_client draws inbound b = Some (r, b') \<longrightarrow>
            console b' = console b @ [warning_line (password draws)]) \<and>
         ((\<forall>i<8. 0 \<le> d' i \<and> d' i \<le> 9) \<and> password d' = password draws \<longrightarrow>
            (\<forall>i<8. d' i = draws i))"
  using password_shape [OF assms] password_digits [OF assms]
    register_client_console [of draws inbound b r b']
    tb_register_client_console [of draws inbound b r b']
    password_inj [of d' draws] assms
  by blast

theorem registration_password_witness:
  "length (password draws_ones) = 8 \<and> set (password draws_ones) \<subseteq> set ''0123456789'' \<and>
   password draws_ones = ''11111111''"
proof -
  have h: "\<forall>i<8. 0 \<le> draws_ones i \<and> draws_ones i \<le> 9"
    by (simp add: draws_ones_def)
  from registration_password [OF h]
  have "length (password draws_ones) = 8 \<and> set (password draws_ones) \<subseteq> set ''0123456789''"
    by blast
  with password_draws_ones show ?thesis
    by blast
qed


end
